theory Spec2Isabelle
  imports
    Main
    "HOL-Library.Word"
    "HOL-Library.Char_ord"
    "HOL-Library.List_Lexorder"
begin

section \<open>Data model\<close>

text \<open>
  The package \<^verbatim>\<open>microservice\<close> of anax works on records of the packages
  \<^verbatim>\<open>persistence\<close>, \<^verbatim>\<open>exchange\<close> and \<^verbatim>\<open>policy\<close>. The records below carry the fields
  that \<^verbatim>\<open>microservice.go\<close> reads and writes. Go's \<^verbatim>\<open>uint64\<close> is a 64-bit word,
  \<^verbatim>\<open>int64\<close> is a 64-bit word read with \<open>sint\<close>, a \<^verbatim>\<open>[]byte\<close> is a list of 8-bit
  words, a \<^verbatim>\<open>string\<close> is a list of bytes.
\<close>

type_synonym uint64 = "64 word"
type_synonym int64 = "64 word"
type_synonym bytes = "8 word list"

text \<open>
  Every place of \<^verbatim>\<open>microservice.go\<close> that builds an error with \<^verbatim>\<open>fmt.Errorf\<close> is a
  constructor; the error it wraps is the last argument. \<open>External\<close> is an error
  made by a collaborator (store, registry client, policy package, \<^verbatim>\<open>encoding/json\<close>).
\<close>

datatype error =
    External string
  | FailedToMarshal error
  | UnableToConvertVersionExpression string error
  | FailedToFindHighestVersion string string error
  | FailedToConvertToPersistent string error
  | FailedToGetArchivedForVersion string string error
  | FailedToGetArchived string error
  | FailedToGetAttributes string error
  | ErrorConvertingAgreementProtocolList error
  | FailedToGeneratePolicy string string error

record HardwareMatch =
  USBDeviceIds :: string
  Devfiles :: string

record UserInput =
  ui_Name :: string
  ui_Label :: string
  ui_Type :: string
  ui_DefaultValue :: string

record WorkloadDeployment =
  Deployment :: string
  DeploymentSignature :: string
  Torrent :: string

text \<open>\<^verbatim>\<open>exchange.MicroserviceDefinition\<close>: the registry-side definition.\<close>

record exchange_MicroserviceDefinition =
  e_Owner :: string
  e_Label :: string
  e_Description :: string
  e_SpecRef :: string
  e_Version :: string
  e_Arch :: string
  e_Sharable :: string
  e_DownloadURL :: string
  e_MatchHardware :: HardwareMatch
  e_UserInputs :: "UserInput list"
  e_Workloads :: "WorkloadDeployment list"
  e_LastUpdated :: string

text \<open>\<^verbatim>\<open>persistence.MicroserviceDefinition\<close>: the install record on the node.\<close>

record MicroserviceDefinition =
  Id_ms :: string
  Owner :: string
  Label :: string
  Description :: string
  SpecRef :: string
  Org :: string
  Version :: string
  Arch :: string
  Sharable :: string
  DownloadURL :: string
  MatchHardware :: HardwareMatch
  UserInputs :: "UserInput list"
  Workloads :: "WorkloadDeployment list"
  LastUpdated :: string
  Archived :: bool
  Name :: string
  UpgradeVersionRange :: string
  AutoUpgrade :: bool
  ActiveUpgrade :: bool
  UpgradeStartTime :: uint64
  UpgradeMsUnregisteredTime :: uint64
  UpgradeAgreementsClearedTime :: uint64
  UpgradeExecutionStartTime :: uint64
  UpgradeMsReregisteredTime :: uint64
  UpgradeFailedTime :: uint64
  UngradeFailureReason :: uint64
  UngradeFailureDescription :: string
  UpgradeNewMsId :: string
  MetadataHash :: bytes

text \<open>\<^verbatim>\<open>persistence.MicroserviceInstance\<close>: a running instance of a definition.\<close>

record MicroserviceInstance =
  mi_SpecRef :: string
  mi_Version :: string
  mi_Archived :: bool
  MicroserviceDefId :: string
  AssociatedAgreements :: "string list"

text \<open>
  A value of Go's \<^verbatim>\<open>interface{}\<close>, by its dynamic type: \<^verbatim>\<open>nil\<close>, a \<^verbatim>\<open>string\<close>, a
  \<^verbatim>\<open>[]interface{}\<close>, a \<^verbatim>\<open>map[string]interface{}\<close>, or a value of some other type
  (given by the name of that type).
\<close>

datatype iface =
    INil
  | IString string
  | ISlice "iface list"
  | IMap "(string \<times> iface) list"
  | IOther string

text \<open>\<^verbatim>\<open>policy.Meter\<close>; its zero value is what an unset \<^verbatim>\<open>var meterPolicy\<close> holds.\<close>

record Meter =
  Tokens :: uint64
  PerTimeUnit :: string
  NotificationIntervalS :: int

text \<open>
  \<^verbatim>\<open>persistence.Attribute\<close> is an interface; \<^verbatim>\<open>GetMeta().SensorUrls\<close> is the list of
  service URLs an attribute is scoped to. The attribute kinds are the cases of the type
  switch in \<^verbatim>\<open>GenMicroservicePolicy\<close>; \<open>OtherAttributes\<close> is any kind the switch
  does not list.
\<close>

record AttributeMeta =
  SensorUrls :: "string list"

datatype Attribute =
    ComputeAttributes (GetMeta: AttributeMeta) int64 int64
  | ArchitectureAttributes (GetMeta: AttributeMeta) string
  | HAAttributes (GetMeta: AttributeMeta) "string list"
  | MeteringAttributes (GetMeta: AttributeMeta) uint64 string int
  | CounterPartyPropertyAttributes (GetMeta: AttributeMeta) "string \<rightharpoonup> iface"
  | PropertyAttributes (GetMeta: AttributeMeta) "string \<rightharpoonup> iface"
  | AgreementProtocolAttributes (GetMeta: AttributeMeta) iface
  | OtherAttributes (GetMeta: AttributeMeta) string

section \<open>The record store\<close>

text \<open>
  Modelled from the spec: the package \<^verbatim>\<open>persistence\<close> (the bolt database and its
  \<^verbatim>\<open>Find...\<close> functions with their filters) is not among the sources. Section 6 of the
  spec gives it as keyed storage of definitions and instances with filter predicates
  ("all instances of (ref, version)", "unarchived", "by url+version", "archived by
  url"), used as \<^verbatim>\<open>find(filters) -> list\<close>, and as an attribute store with
  \<^verbatim>\<open>findApplicable(specRef) -> list<Attribute>\<close>, where each attribute carries an
  optional scoping service-URL list; section 7 gives every lookup the possibility of a
  store error. The database is the list of stored instances, the list of stored
  definitions, the list of stored attributes, and the error a read ends with, if any
  (a store that holds records can fail to be read).
\<close>

record bolt_DB =
  microservice_instances :: "MicroserviceInstance list"
  microservice_definitions :: "MicroserviceDefinition list"
  service_attributes :: "Attribute list"
  read_error :: "error option"

text \<open>
  Modelled from the spec: the filters of \<^verbatim>\<open>persistence\<close>, which are not among the
  sources, after the filter predicates of section 6: "all instances of (ref, version)",
  "unarchived", "by url+version", "by url" and "archived".
\<close>

type_synonym MIFilter = "MicroserviceInstance \<Rightarrow> bool"
type_synonym MSFilter = "MicroserviceDefinition \<Rightarrow> bool"

definition AllInstancesMIFilter :: "string \<Rightarrow> string \<Rightarrow> MIFilter" where
  "AllInstancesMIFilter spec_url version =
     (\<lambda>e. mi_SpecRef e = spec_url \<and> mi_Version e = version)"

definition UnarchivedMIFilter :: MIFilter where
  "UnarchivedMIFilter = (\<lambda>e. \<not> mi_Archived e)"

definition UrlVersionMSFilter :: "string \<Rightarrow> string \<Rightarrow> MSFilter" where
  "UrlVersionMSFilter spec_url version =
     (\<lambda>e. SpecRef e = spec_url \<and> Version e = version)"

definition UrlMSFilter :: "string \<Rightarrow> MSFilter" where
  "UrlMSFilter spec_url = (\<lambda>e. SpecRef e = spec_url)"

definition ArchivedMSFilter :: MSFilter where
  "ArchivedMSFilter = (\<lambda>e. Archived e)"

text \<open>
  Modelled from the spec: \<^verbatim>\<open>persistence.FindMicroserviceInstances\<close> and
  \<^verbatim>\<open>persistence.FindMicroserviceDefs\<close>, which are not among the sources, after
  \<^verbatim>\<open>find(filters) -> list\<close> of section 6: the error of the read when it fails, else the
  stored records that pass every filter, in stored order.
\<close>

definition FindMicroserviceInstances ::
  "bolt_DB \<Rightarrow> MIFilter list \<Rightarrow> error + MicroserviceInstance list" where
  "FindMicroserviceInstances db filters =
     (case read_error db of
        Some err \<Rightarrow> Inl err
      | None \<Rightarrow> Inr (filter (\<lambda>e. list_all (\<lambda>f. f e) filters) (microservice_instances db)))"

definition FindMicroserviceDefs ::
  "bolt_DB \<Rightarrow> MSFilter list \<Rightarrow> error + MicroserviceDefinition list" where
  "FindMicroserviceDefs db filters =
     (case read_error db of
        Some err \<Rightarrow> Inl err
      | None \<Rightarrow> Inr (filter (\<lambda>e. list_all (\<lambda>f. f e) filters) (microservice_definitions db)))"

text \<open>
  Modelled from the spec: \<^verbatim>\<open>persistence.FindApplicableAttributes\<close>, which is not among
  the sources, after \<^verbatim>\<open>findApplicable(specRef) -> list<Attribute>\<close> of section 6: an
  attribute is applicable to a service URL when it is unscoped or its scope lists the
  URL.
\<close>

definition FindApplicableAttributes :: "bolt_DB \<Rightarrow> string \<Rightarrow> error + Attribute list" where
  "FindApplicableAttributes db serviceUrl =
     (case read_error db of
        Some err \<Rightarrow> Inl err
      | None \<Rightarrow>
          Inr (filter (\<lambda>attr. SensorUrls (GetMeta attr) = [] \<or> serviceUrl \<in> set (SensorUrls (GetMeta attr)))
                 (service_attributes db)))"

section \<open>Eligibility for an upgrade\<close>

text \<open>
  The loop of \<^verbatim>\<open>MicroserviceReadyForUpgrade\<close> over the instances found: it returns
  \<^verbatim>\<open>false\<close> at the first instance of this definition (\<^verbatim>\<open>MicroserviceDefId == msdef.Id\<close>)
  that has an agreement. The value is what the function returns after the loop.
\<close>

fun no_agreements_loop :: "MicroserviceDefinition \<Rightarrow> MicroserviceInstance list \<Rightarrow> bool" where
  "no_agreements_loop msdef [] = True"
| "no_agreements_loop msdef (msi # ms_insts) =
     (if MicroserviceDefId msi = Id_ms msdef \<and> length (AssociatedAgreements msi) > 0
      then False
      else no_agreements_loop msdef ms_insts)"

definition MicroserviceReadyForUpgrade :: "MicroserviceDefinition \<Rightarrow> bolt_DB \<Rightarrow> bool" where
  "MicroserviceReadyForUpgrade msdef db =
     (if Archived msdef then False
      else if \<not> AutoUpgrade msdef then False
      else if UpgradeStartTime msdef \<noteq> 0 \<and> UpgradeMsReregisteredTime msdef = 0
              \<and> UpgradeFailedTime msdef = 0 then False
      else if \<not> ActiveUpgrade msdef then
        (case FindMicroserviceInstances db
                [AllInstancesMIFilter (SpecRef msdef) (Version msdef), UnarchivedMIFilter] of
           Inl err \<Rightarrow> False
         | Inr ms_insts \<Rightarrow> no_agreements_loop msdef ms_insts)
      else True)"

section \<open>Detection of a stalled upgrade\<close>

text \<open>
  \<^verbatim>\<open>MicroserviceNeedsRollback\<close> reads the clock (\<^verbatim>\<open>uint64(time.Now().Unix())\<close>) and the
  constant \<^verbatim>\<open>config.MICROSERVICE_EXEC_TIMEOUT\<close>, which is declared in a package that is
  not among the sources; both are parameters here. The subtraction is the one of
  \<^verbatim>\<open>uint64\<close>: it wraps modulo \<open>2 ^ 64\<close>.
\<close>

definition MicroserviceNeedsRollback ::
  "uint64 \<Rightarrow> uint64 \<Rightarrow> MicroserviceDefinition \<Rightarrow> bool" where
  "MicroserviceNeedsRollback MICROSERVICE_EXEC_TIMEOUT now msdef =
     (if UpgradeStartTime msdef = 0 then False
      else if UpgradeExecutionStartTime msdef = 0 then
        (if now - UpgradeStartTime msdef > MICROSERVICE_EXEC_TIMEOUT then True else False)
      else False)"

section \<open>Conversion of a registry-side definition\<close>

text \<open>
  Modelled from the spec: the constants \<^verbatim>\<open>exchange.MS_SHARING_MODE_...\<close> are declared in
  a package that is not among the sources. Section 3 of the spec names the three sharing
  modes exclusive, single and multiple, compared in lower case.
\<close>

definition MS_SHARING_MODE_EXCLUSIVE :: string where
  "MS_SHARING_MODE_EXCLUSIVE = ''exclusive''"

definition MS_SHARING_MODE_SINGLE :: string where
  "MS_SHARING_MODE_SINGLE = ''single''"

definition MS_SHARING_MODE_MULTIPLE :: string where
  "MS_SHARING_MODE_MULTIPLE = ''multiple''"

text \<open>
  What \<^verbatim>\<open>ConvertToPersistent\<close> and \<^verbatim>\<open>GetUpgradeMicroserviceDef\<close> call outside the
  package, as parameters: \<^verbatim>\<open>strings.ToLower\<close>, \<^verbatim>\<open>json.Marshal\<close> of a registry-side
  definition, \<^verbatim>\<open>sha3.Sum256\<close>, \<^verbatim>\<open>policy.Version_Expression_Factory\<close> followed by
  \<^verbatim>\<open>Get_expression\<close>, and \<^verbatim>\<open>exchange.GetMicroservice\<close> (its arguments after the HTTP
  client factory: URL, organisation, version expression, architecture, exchange URL,
  device id, device token).
\<close>

record collaborators =
  strings_ToLower :: "string \<Rightarrow> string"
  json_Marshal :: "exchange_MicroserviceDefinition \<Rightarrow> error + bytes"
  sha3_Sum256 :: "bytes \<Rightarrow> bytes"
  Version_Expression_Factory :: "string \<Rightarrow> error + string"
  GetMicroservice ::
    "string \<Rightarrow> string \<Rightarrow> string \<Rightarrow> string \<Rightarrow> string \<Rightarrow> string \<Rightarrow> string
       \<Rightarrow> error + exchange_MicroserviceDefinition"

definition ConvertToPersistent ::
  "collaborators \<Rightarrow> exchange_MicroserviceDefinition \<Rightarrow> string \<Rightarrow> error + MicroserviceDefinition" where
  "ConvertToPersistent c ems org =
     (let lowered = strings_ToLower c (e_Sharable ems);
          pms = \<lparr> Id_ms = '''',
                  Owner = e_Owner ems,
                  Label = e_Label ems,
                  Description = e_Description ems,
                  SpecRef = e_SpecRef ems,
                  Org = org,
                  Version = e_Version ems,
                  Arch = e_Arch ems,
                  Sharable =
                    (if lowered \<noteq> MS_SHARING_MODE_EXCLUSIVE \<and> lowered \<noteq> MS_SHARING_MODE_SINGLE
                        \<and> lowered \<noteq> MS_SHARING_MODE_MULTIPLE
                     then MS_SHARING_MODE_EXCLUSIVE else lowered),
                  DownloadURL = e_DownloadURL ems,
                  MatchHardware =
                    \<lparr> USBDeviceIds = USBDeviceIds (e_MatchHardware ems),
                      Devfiles = Devfiles (e_MatchHardware ems) \<rparr>,
                  UserInputs =
                    map (\<lambda>ui. \<lparr> ui_Name = ui_Name ui, ui_Label = ui_Label ui, ui_Type = ui_Type ui,
                                ui_DefaultValue = ui_DefaultValue ui \<rparr>) (e_UserInputs ems),
                  Workloads =
                    map (\<lambda>wl. \<lparr> Deployment = Deployment wl,
                                DeploymentSignature = DeploymentSignature wl,
                                Torrent = Torrent wl \<rparr>) (e_Workloads ems),
                  LastUpdated = e_LastUpdated ems,
                  Archived = False,
                  Name = '''',
                  UpgradeVersionRange = ''0.0.0'',
                  AutoUpgrade = False,
                  ActiveUpgrade = True,
                  UpgradeStartTime = 0,
                  UpgradeMsUnregisteredTime = 0,
                  UpgradeAgreementsClearedTime = 0,
                  UpgradeExecutionStartTime = 0,
                  UpgradeMsReregisteredTime = 0,
                  UpgradeFailedTime = 0,
                  UngradeFailureReason = 0,
                  UngradeFailureDescription = '''',
                  UpgradeNewMsId = '''',
                  MetadataHash = [] \<rparr>
      in case json_Marshal c ems of
           Inl err \<Rightarrow> Inl (FailedToMarshal err)
         | Inr serial \<Rightarrow> Inr (pms\<lparr>MetadataHash := sha3_Sum256 c serial\<rparr>))"

section \<open>The definition to upgrade to\<close>

text \<open>
  \<^verbatim>\<open>strings.Compare\<close>: the strings compared byte by byte, a proper prefix first. The
  order \<open><\<close> on \<open>string\<close> is this order (the lexicographic order of lists over the
  order of characters by their codes).
\<close>

definition strings_Compare :: "string \<Rightarrow> string \<Rightarrow> int" where
  "strings_Compare a b = (if a = b then 0 else if a < b then - 1 else 1)"

text \<open>
  The loop of \<^verbatim>\<open>GetUpgradeMicroserviceDef\<close> over the archived definitions found: true
  when it reaches \<^verbatim>\<open>return nil, nil\<close> (the upgrade failed before).
\<close>

fun upgrade_failed_before ::
  "MicroserviceDefinition \<Rightarrow> MicroserviceDefinition \<Rightarrow> MicroserviceDefinition list \<Rightarrow> bool" where
  "upgrade_failed_before msdef new_msdef [] = False"
| "upgrade_failed_before msdef new_msdef (ms # msdefs) =
     (if UpgradeNewMsId msdef = Id_ms ms \<and> MetadataHash ms = MetadataHash new_msdef
      then True
      else upgrade_failed_before msdef new_msdef msdefs)"

text \<open>
  The result is \<open>Inl err\<close> for \<^verbatim>\<open>(nil, err)\<close>, \<open>Inr None\<close> for \<^verbatim>\<open>(nil, nil)\<close> and
  \<open>Inr (Some new_msdef)\<close> for \<^verbatim>\<open>(new_msdef, nil)\<close>. \<open>copied\<close> is \<^verbatim>\<open>new_msdef\<close> after the
  four assignments at the end of the function, which every path that does not return
  earlier reaches. The registry answer is taken as a definition, not a \<^verbatim>\<open>nil\<close> pointer.
\<close>

definition GetUpgradeMicroserviceDef ::
  "collaborators \<Rightarrow> MicroserviceDefinition \<Rightarrow> string \<Rightarrow> string \<Rightarrow> string \<Rightarrow> bolt_DB
     \<Rightarrow> error + MicroserviceDefinition option" where
  "GetUpgradeMicroserviceDef c msdef exchURL deviceId deviceToken db =
     (case Version_Expression_Factory c (UpgradeVersionRange msdef) of
        Inl err \<Rightarrow> Inl (UnableToConvertVersionExpression (UpgradeVersionRange msdef) err)
      | Inr vExp \<Rightarrow>
     (case GetMicroservice c (SpecRef msdef) (Org msdef) vExp (Arch msdef) exchURL deviceId deviceToken of
        Inl err \<Rightarrow> Inl (FailedToFindHighestVersion (SpecRef msdef) (UpgradeVersionRange msdef) err)
      | Inr e_msdef \<Rightarrow>
     (case ConvertToPersistent c e_msdef (Org msdef) of
        Inl err \<Rightarrow> Inl (FailedToConvertToPersistent (SpecRef msdef) err)
      | Inr new_msdef \<Rightarrow>
          let copied = new_msdef\<lparr> Name := Name msdef,
                                  UpgradeVersionRange := UpgradeVersionRange msdef,
                                  AutoUpgrade := AutoUpgrade msdef,
                                  ActiveUpgrade := ActiveUpgrade msdef \<rparr>
          in
          if strings_Compare (e_Version e_msdef) (Version msdef) < 0 then Inr None
          else if strings_Compare (e_Version e_msdef) (Version msdef) = 0
                  \<and> MetadataHash msdef = MetadataHash new_msdef then Inr None
          else if UpgradeNewMsId msdef \<noteq> '''' then
            (case FindMicroserviceDefs db
                    [UrlVersionMSFilter (SpecRef new_msdef) (Version new_msdef), ArchivedMSFilter] of
               Inl err \<Rightarrow> Inl (FailedToGetArchivedForVersion (SpecRef msdef) (Version msdef) err)
             | Inr msdefs \<Rightarrow>
                 if upgrade_failed_before msdef new_msdef msdefs then Inr None
                 else Inr (Some copied))
          else Inr (Some copied))))"

section \<open>The definition to roll back to\<close>

text \<open>
  The loop of \<^verbatim>\<open>GetRollbackMicroserviceDef\<close>: the first archived definition found whose
  \<^verbatim>\<open>UpgradeNewMsId\<close> is the id of the given definition. The function reads the store
  and writes nothing to it, so the model takes the database and returns no new one.
\<close>

fun rollback_loop ::
  "MicroserviceDefinition \<Rightarrow> MicroserviceDefinition list \<Rightarrow> MicroserviceDefinition option" where
  "rollback_loop msdef [] = None"
| "rollback_loop msdef (ms # msdefs) =
     (if UpgradeNewMsId ms = Id_ms msdef then Some ms else rollback_loop msdef msdefs)"

definition GetRollbackMicroserviceDef ::
  "MicroserviceDefinition \<Rightarrow> bolt_DB \<Rightarrow> error + MicroserviceDefinition option" where
  "GetRollbackMicroserviceDef msdef db =
     (case FindMicroserviceDefs db [UrlMSFilter (SpecRef msdef), ArchivedMSFilter] of
        Inl err \<Rightarrow> Inl (FailedToGetArchived (SpecRef msdef) err)
      | Inr msdefs \<Rightarrow> Inr (rollback_loop msdef msdefs))"

section \<open>Compilation of the attributes into a policy\<close>

text \<open>
  \<^verbatim>\<open>strconv.FormatInt(i, 10)\<close> of an \<^verbatim>\<open>int64\<close>: the decimal digits, most significant
  first, after a minus sign when the number is negative.
\<close>

function FormatUint :: "nat \<Rightarrow> string" where
  "FormatUint n =
     (if n < 10 then [''0123456789'' ! n]
      else FormatUint (n div 10) @ [''0123456789'' ! (n mod 10)])"
  by pat_completeness auto
termination
  by (relation "measure (\<lambda>n. n)") auto

declare FormatUint.simps [simp del]

definition FormatInt :: "int64 \<Rightarrow> string" where
  "FormatInt i =
     (if sint i < 0 then CHR ''-'' # FormatUint (nat (- sint i)) else FormatUint (nat (sint i)))"

text \<open>
  Modelled from the spec: \<^verbatim>\<open>policy.GeneratePolicy\<close> and the message it returns are not
  among the sources. Section 4.E, step 5, gives the policy document as made of the spec
  ref, org, name, version, arch, property bag, HA partners, metering policy,
  counterparty properties, agreement-protocol list and max agreements, and handed to the
  downstream channel. The document is the record of these arguments and the message
  carries it; whether generation fails (it also gets the policy path and the
  organisation of the device) is a parameter. The type \<open>'agp\<close> is
  \<^verbatim>\<open>policy.AgreementProtocol\<close>.
\<close>

record 'agp Policy =
  p_SpecRef :: string
  p_Org :: string
  p_Name :: string
  p_Version :: string
  p_Arch :: string
  p_Properties :: "string \<rightharpoonup> iface"
  p_HAPartners :: "string list"
  p_Meter :: Meter
  p_CounterPartyProperties :: "string \<rightharpoonup> iface"
  p_AgreementProtocols :: "'agp list"
  p_MaxAgreements :: int

datatype 'agp Message = PolicyCreatedMessage "'agp Policy"

text \<open>
  The package \<^verbatim>\<open>policy\<close> as \<^verbatim>\<open>GenMicroservicePolicy\<close> uses it:
  \<^verbatim>\<open>ConvertToAgreementProtocolList\<close>, a parameter, and the failure of
  \<^verbatim>\<open>GeneratePolicy\<close> on a document, a policy path and a device organisation.
\<close>

record 'agp policy_pkg =
  ConvertToAgreementProtocolList :: "iface list \<Rightarrow> error + 'agp list"
  GeneratePolicy_error :: "'agp Policy \<Rightarrow> string \<Rightarrow> string \<Rightarrow> error option"

definition GeneratePolicy ::
  "'agp policy_pkg \<Rightarrow> string \<Rightarrow> string \<Rightarrow> string \<Rightarrow> string \<Rightarrow> string \<Rightarrow> (string \<rightharpoonup> iface)
     \<Rightarrow> string list \<Rightarrow> Meter \<Rightarrow> (string \<rightharpoonup> iface) \<Rightarrow> 'agp list \<Rightarrow> int \<Rightarrow> string \<Rightarrow> string
     \<Rightarrow> error + 'agp Message" where
  "GeneratePolicy pk sensorUrl sensorOrg sensorName sensorVersion arch props haPartners meterPolicy
       counterPartyProperties agps maxAgreements policyPath deviceOrg =
     (let pol = \<lparr> p_SpecRef = sensorUrl, p_Org = sensorOrg, p_Name = sensorName,
                  p_Version = sensorVersion, p_Arch = arch, p_Properties = props,
                  p_HAPartners = haPartners, p_Meter = meterPolicy,
                  p_CounterPartyProperties = counterPartyProperties,
                  p_AgreementProtocols = agps, p_MaxAgreements = maxAgreements \<rparr>
      in case GeneratePolicy_error pk pol policyPath deviceOrg of
           Some err \<Rightarrow> Inl err
         | None \<Rightarrow> Inr (PolicyCreatedMessage pol))"

text \<open>
  The variables of \<^verbatim>\<open>GenMicroservicePolicy\<close> that the closure
  \<^verbatim>\<open>handleServiceAttributes\<close> captures and assigns. \<open>initial_vars\<close> holds their values
  before the first call: the zero values of the \<^verbatim>\<open>var\<close> declarations and the empty map
  made for \<^verbatim>\<open>props\<close>.
\<close>

record closure_vars =
  policyArch :: string
  haPartner :: "string list"
  meterPolicy :: Meter
  counterPartyProperties :: "string \<rightharpoonup> iface"
  properties :: "string \<rightharpoonup> iface"
  serviceAgreementProtocols :: "iface list"
  props :: "string \<rightharpoonup> iface"

definition initial_vars :: closure_vars where
  "initial_vars =
     \<lparr> policyArch = '''', haPartner = [],
       meterPolicy = \<lparr> Tokens = 0, PerTimeUnit = '''', NotificationIntervalS = 0 \<rparr>,
       counterPartyProperties = Map.empty, properties = Map.empty,
       serviceAgreementProtocols = [], props = Map.empty \<rparr>"

text \<open>
  One round of the loop of \<^verbatim>\<open>handleServiceAttributes\<close>: the type switch on one
  attribute. The result is \<open>None\<close> when the round panics: the type assertion
  \<^verbatim>\<open>agpl.([]interface{})\<close> has no \<^verbatim>\<open>ok\<close> result, so it panics on a value of
  \<^verbatim>\<open>Protocols\<close> whose dynamic type is not \<^verbatim>\<open>[]interface{}\<close>.
\<close>

fun handle_attribute :: "Attribute \<Rightarrow> closure_vars \<Rightarrow> closure_vars option" where
  "handle_attribute (ComputeAttributes m cpus ram) v =
     Some (v\<lparr>props := (props v)(''cpus'' \<mapsto> IString (FormatInt cpus),
                               ''ram'' \<mapsto> IString (FormatInt ram))\<rparr>)"
| "handle_attribute (ArchitectureAttributes m architecture) v = Some (v\<lparr>policyArch := architecture\<rparr>)"
| "handle_attribute (HAAttributes m partners) v = Some (v\<lparr>haPartner := partners\<rparr>)"
| "handle_attribute (MeteringAttributes m tokens perTimeUnit notificationIntervalS) v =
     Some (v\<lparr>meterPolicy := \<lparr> Tokens = tokens, PerTimeUnit = perTimeUnit,
                               NotificationIntervalS = notificationIntervalS \<rparr>\<rparr>)"
| "handle_attribute (CounterPartyPropertyAttributes m expression) v =
     Some (v\<lparr>counterPartyProperties := expression\<rparr>)"
| "handle_attribute (PropertyAttributes m mappings) v = Some (v\<lparr>properties := mappings\<rparr>)"
| "handle_attribute (AgreementProtocolAttributes m protocols) v =
     (case protocols of
        ISlice agpl \<Rightarrow> Some (v\<lparr>serviceAgreementProtocols := agpl\<rparr>)
      | _ \<Rightarrow> None)"
| "handle_attribute (OtherAttributes m kind) v = Some v"

fun handle_attributes_loop :: "Attribute list \<Rightarrow> closure_vars \<Rightarrow> closure_vars option" where
  "handle_attributes_loop [] v = Some v"
| "handle_attributes_loop (attr # attributes) v =
     (case handle_attribute attr v of
        None \<Rightarrow> None
      | Some v' \<Rightarrow> handle_attributes_loop attributes v')"

text \<open>
  After the loop the mappings held in \<^verbatim>\<open>properties\<close> are written into \<^verbatim>\<open>props\<close>, key
  by key; the keys of a Go map are distinct, so the order of the writes does not
  matter and the result is \<open>props ++ properties\<close>.
\<close>

definition handleServiceAttributes :: "Attribute list \<Rightarrow> closure_vars \<Rightarrow> closure_vars option" where
  "handleServiceAttributes attributes v =
     (case handle_attributes_loop attributes v of
        None \<Rightarrow> None
      | Some v' \<Rightarrow>
          if properties v' \<noteq> Map.empty then Some (v'\<lparr>props := props v' ++ properties v'\<rparr>)
          else Some v')"

text \<open>
  What a call of \<^verbatim>\<open>GenMicroservicePolicy\<close> ends with: a panic, or a returned
  \<^verbatim>\<open>error\<close> (\<open>None\<close> for \<^verbatim>\<open>nil\<close>). The channel \<^verbatim>\<open>e\<close> is the list of the messages sent
  on it so far; the function returns it with the message it sent, if any.
\<close>

datatype go_result = Panic | Return "error option"

definition GenMicroservicePolicy ::
  "'agp policy_pkg \<Rightarrow> MicroserviceDefinition \<Rightarrow> string \<Rightarrow> bolt_DB \<Rightarrow> 'agp Message list \<Rightarrow> string
     \<Rightarrow> go_result \<times> 'agp Message list" where
  "GenMicroservicePolicy pk msdef policyPath db e deviceOrg =
     (case FindApplicableAttributes db (SpecRef msdef) of
        Inl err \<Rightarrow> (Return (Some (FailedToGetAttributes (SpecRef msdef) err)), e)
      | Inr orig_attributes \<Rightarrow>
          let common_attribs = filter (\<lambda>attr. SensorUrls (GetMeta attr) = []) orig_attributes;
              specific_attribs = filter (\<lambda>attr. SensorUrls (GetMeta attr) \<noteq> []) orig_attributes
          in
          (case handleServiceAttributes common_attribs initial_vars of
             None \<Rightarrow> (Panic, e)
           | Some v1 \<Rightarrow>
          (case handleServiceAttributes specific_attribs v1 of
             None \<Rightarrow> (Panic, e)
           | Some v \<Rightarrow>
          (case ConvertToAgreementProtocolList pk (serviceAgreementProtocols v) of
             Inl err \<Rightarrow> (Return (Some (ErrorConvertingAgreementProtocolList err)), e)
           | Inr list \<Rightarrow>
               let maxAgreements =
                     (if Sharable msdef = MS_SHARING_MODE_SINGLE
                         \<or> Sharable msdef = MS_SHARING_MODE_MULTIPLE then 2 else 1)
               in
               (case GeneratePolicy pk (SpecRef msdef) (Org msdef) (Name msdef) (Version msdef)
                       (policyArch v) (props v) (haPartner v) (meterPolicy v)
                       (counterPartyProperties v) list maxAgreements policyPath deviceOrg of
                  Inl err \<Rightarrow>
                    (Return (Some (FailedToGeneratePolicy (SpecRef msdef) (Version msdef) err)), e)
                | Inr msg \<Rightarrow> (Return None, e @ [msg]))))))"

section \<open>Example inputs\<close>

text \<open>
  Concrete inputs for the scenarios of section 8 of the spec. \<open>example_msdef\<close> is an
  installed, unarchived definition at version 1.0.0 that is not upgrading;
  \<open>example_instance\<close> is a running instance of it that holds one agreement.
\<close>

definition example_msdef :: MicroserviceDefinition where
  "example_msdef =
     \<lparr> Id_ms = ''ms1'', Owner = ''IBM/admin'', Label = ''GPS'', Description = ''GPS service'',
       SpecRef = ''https://bluehorizon.network/microservices/gps'', Org = ''IBM'',
       Version = ''1.0.0'', Arch = ''amd64'', Sharable = ''exclusive'', DownloadURL = '''',
       MatchHardware = \<lparr> USBDeviceIds = '''', Devfiles = '''' \<rparr>, UserInputs = [],
       Workloads = [], LastUpdated = ''2017-10-01'', Archived = False, Name = ''gps'',
       UpgradeVersionRange = ''[1.0.0,INFINITY)'', AutoUpgrade = True, ActiveUpgrade = True,
       UpgradeStartTime = 0, UpgradeMsUnregisteredTime = 0, UpgradeAgreementsClearedTime = 0,
       UpgradeExecutionStartTime = 0, UpgradeMsReregisteredTime = 0, UpgradeFailedTime = 0,
       UngradeFailureReason = 0, UngradeFailureDescription = '''', UpgradeNewMsId = '''',
       MetadataHash = [49, 46, 48, 46, 48] \<rparr>"

definition example_instance :: MicroserviceInstance where
  "example_instance =
     \<lparr> mi_SpecRef = ''https://bluehorizon.network/microservices/gps'', mi_Version = ''1.0.0'',
       mi_Archived = False, MicroserviceDefId = ''ms1'', AssociatedAgreements = [''ag1''] \<rparr>"

definition example_db :: bolt_DB where
  "example_db =
     \<lparr> microservice_instances = [], microservice_definitions = [], service_attributes = [],
       read_error = None \<rparr>"

text \<open>
  The archived record of an upgrade of \<open>example_msdef\<close> to version 2.0.0 that failed:
  its id is \<open>ms2\<close> and its hash is the one of the registry-side definition at 2.0.0.
\<close>

definition example_archived_msdef :: MicroserviceDefinition where
  "example_archived_msdef =
     example_msdef\<lparr> Id_ms := ''ms2'', Version := ''2.0.0'', Archived := True,
                     MetadataHash := [50, 46, 48, 46, 48] \<rparr>"

text \<open>
  The registry-side definition of the same service at a given version, and a stand-in
  for the collaborators: every version range is accepted, the registry answers with the
  definition given, the serialisation of a definition is its version string and the
  digest of a serialisation is the serialisation itself.
\<close>

definition example_exchange_def :: "string \<Rightarrow> exchange_MicroserviceDefinition" where
  "example_exchange_def version =
     \<lparr> e_Owner = ''IBM/admin'', e_Label = ''GPS'', e_Description = ''GPS service'',
       e_SpecRef = ''https://bluehorizon.network/microservices/gps'', e_Version = version,
       e_Arch = ''amd64'', e_Sharable = ''exclusive'', e_DownloadURL = '''',
       e_MatchHardware = \<lparr> USBDeviceIds = '''', Devfiles = '''' \<rparr>, e_UserInputs = [],
       e_Workloads = [], e_LastUpdated = ''2017-11-01'' \<rparr>"

definition example_collaborators :: "exchange_MicroserviceDefinition \<Rightarrow> collaborators" where
  "example_collaborators answer =
     \<lparr> strings_ToLower = (\<lambda>s. s),
       json_Marshal = (\<lambda>ems. Inr (map of_char (e_Version ems))),
       sha3_Sum256 = (\<lambda>serial. serial),
       Version_Expression_Factory = (\<lambda>range. Inr range),
       GetMicroservice = (\<lambda>url org vExp arch exchURL deviceId deviceToken. Inr answer) \<rparr>"

text \<open>
  A stand-in for the package \<^verbatim>\<open>policy\<close>: an agreement protocol is the string that
  names it; a list converts when each element is a map that holds a string under the
  key \<open>name\<close>, and the conversion ends with an error at the first element that is not;
  generation never fails.
\<close>

fun protocol_name :: "iface \<Rightarrow> error + string" where
  "protocol_name (IMap entries) =
     (case map_of entries ''name'' of
        Some (IString name) \<Rightarrow> Inr name
      | _ \<Rightarrow> Inl (External ''could not convert agreement protocol name to string''))"
| "protocol_name other =
     Inl (External ''could not convert agreement protocol list element to a map'')"

fun convert_names :: "iface list \<Rightarrow> error + string list" where
  "convert_names [] = Inr []"
| "convert_names (agpEle # rest) =
     (case protocol_name agpEle of
        Inl err \<Rightarrow> Inl err
      | Inr name \<Rightarrow>
          (case convert_names rest of Inl err \<Rightarrow> Inl err | Inr names \<Rightarrow> Inr (name # names)))"

definition example_policy_pkg :: "string policy_pkg" where
  "example_policy_pkg =
     \<lparr> ConvertToAgreementProtocolList = convert_names,
       GeneratePolicy_error = (\<lambda>pol policyPath deviceOrg. None) \<rparr>"

text \<open>
  Attributes for the scenarios of the policy compiler: \<open>common_meta\<close> is the meta data
  of an unscoped attribute, \<open>gps_meta\<close> the one of an attribute scoped to the URL of
  \<open>example_msdef\<close>. The common attributes give the region \<open>eu\<close>, two CPUs and an
  agreement-protocol list whose element is a string, not a map; the specific attributes
  give the region \<open>us\<close>, then an owner, and the agreement protocol \<open>Basic\<close>.
\<close>

definition common_meta :: AttributeMeta where
  "common_meta = \<lparr> SensorUrls = [] \<rparr>"

definition gps_meta :: AttributeMeta where
  "gps_meta = \<lparr> SensorUrls = [''https://bluehorizon.network/microservices/gps''] \<rparr>"

definition common_region :: Attribute where
  "common_region = PropertyAttributes common_meta [''region'' \<mapsto> IString ''eu'']"

definition common_compute :: Attribute where
  "common_compute = ComputeAttributes common_meta 2 1024"

definition common_protocols :: Attribute where
  "common_protocols = AgreementProtocolAttributes common_meta (ISlice [IString ''Basic''])"

definition gps_region :: Attribute where
  "gps_region = PropertyAttributes gps_meta [''region'' \<mapsto> IString ''us'']"

definition gps_owner :: Attribute where
  "gps_owner = PropertyAttributes gps_meta [''owner'' \<mapsto> IString ''ops'']"

definition gps_protocols :: Attribute where
  "gps_protocols =
     AgreementProtocolAttributes gps_meta (ISlice [IMap [(''name'', IString ''Basic'')]])"

text \<open>
  The agreement-protocol values and the property mappings that a list of attributes
  carries, in the order of the list.
\<close>

fun protocols_of :: "Attribute list \<Rightarrow> iface list" where
  "protocols_of [] = []"
| "protocols_of (AgreementProtocolAttributes m protocols # attributes) =
     protocols # protocols_of attributes"
| "protocols_of (attr # attributes) = protocols_of attributes"

fun mappings_of :: "Attribute list \<Rightarrow> (string \<rightharpoonup> iface) list" where
  "mappings_of [] = []"
| "mappings_of (PropertyAttributes m mappings # attributes) = mappings # mappings_of attributes"
| "mappings_of (attr # attributes) = mappings_of attributes"

fun is_slice :: "iface \<Rightarrow> bool" where
  "is_slice (ISlice l) = True"
| "is_slice other = False"

text \<open>
  The attributes that \<^verbatim>\<open>GenMicroservicePolicy\<close> handles for a service URL, in the order
  it handles them: the applicable unscoped ones, then the applicable scoped ones.
\<close>

definition common_attributes :: "bolt_DB \<Rightarrow> string \<Rightarrow> Attribute list" where
  "common_attributes db url =
     filter (\<lambda>attr. SensorUrls (GetMeta attr) = []) (service_attributes db)"

definition specific_attributes :: "bolt_DB \<Rightarrow> string \<Rightarrow> Attribute list" where
  "specific_attributes db url =
     filter (\<lambda>attr. url \<in> set (SensorUrls (GetMeta attr))) (service_attributes db)"

section \<open>Detection of a stalled upgrade: properties\<close>

text \<open>
  C1. For every definition, every clock value and every timeout,
  \<^verbatim>\<open>MicroserviceNeedsRollback\<close> returns true if and only if \<^verbatim>\<open>UpgradeStartTime\<close> is not 0,
  \<^verbatim>\<open>UpgradeExecutionStartTime\<close> is 0 and \<^verbatim>\<open>now - UpgradeStartTime\<close> (the subtraction of
  \<^verbatim>\<open>uint64\<close>) is strictly greater than the timeout. At the boundary, where the clock is
  exactly the timeout after the start, it returns false. When the start is not after
  the clock, the subtraction does not wrap and is the difference of the two numbers.
\<close>

theorem MicroserviceNeedsRollback_iff:
  "(MicroserviceNeedsRollback timeout now msdef \<longleftrightarrow>
      UpgradeStartTime msdef \<noteq> 0 \<and> UpgradeExecutionStartTime msdef = 0
      \<and> now - UpgradeStartTime msdef > timeout)
   \<and> \<not> MicroserviceNeedsRollback timeout (UpgradeStartTime msdef + timeout) msdef
   \<and> (UpgradeStartTime msdef \<le> now \<longrightarrow>
        (MicroserviceNeedsRollback timeout now msdef \<longleftrightarrow>
           UpgradeStartTime msdef \<noteq> 0 \<and> UpgradeExecutionStartTime msdef = 0
           \<and> unat now - unat (UpgradeStartTime msdef) > unat timeout))"
  by (simp add: MicroserviceNeedsRollback_def word_less_nat_alt unat_sub)

text \<open>
  Scenario 5 of the spec: start 1000, timeout 300; the clock at 1301 and at 1300; then
  with the execution started, and with no upgrade started.
\<close>

theorem MicroserviceNeedsRollback_iff_witness:
  "MicroserviceNeedsRollback 300 1301
     (example_msdef\<lparr>UpgradeStartTime := 1000, UpgradeExecutionStartTime := 0\<rparr>)
   \<and> \<not> MicroserviceNeedsRollback 300 1300
     (example_msdef\<lparr>UpgradeStartTime := 1000, UpgradeExecutionStartTime := 0\<rparr>)
   \<and> \<not> MicroserviceNeedsRollback 300 1301
     (example_msdef\<lparr>UpgradeStartTime := 1000, UpgradeExecutionStartTime := 1100\<rparr>)
   \<and> \<not> MicroserviceNeedsRollback 300 1301 example_msdef"
  using MicroserviceNeedsRollback_iff
          [of 300 1301 "example_msdef\<lparr>UpgradeStartTime := 1000, UpgradeExecutionStartTime := 0\<rparr>"]
    MicroserviceNeedsRollback_iff
          [of 300 1300 "example_msdef\<lparr>UpgradeStartTime := 1000, UpgradeExecutionStartTime := 0\<rparr>"]
    MicroserviceNeedsRollback_iff
          [of 300 1301 "example_msdef\<lparr>UpgradeStartTime := 1000, UpgradeExecutionStartTime := 1100\<rparr>"]
    MicroserviceNeedsRollback_iff [of 300 1301 example_msdef]
  by (simp add: example_msdef_def)

text \<open>
  C10, as claimed: a start time in the future always gives true, since the wrapped
  difference exceeds any timeout. It does not: with the clock at 200 and a start time
  50 below \<open>2 ^ 64\<close>, the difference wraps to 250, which a timeout of 300 is not below.
\<close>

theorem MicroserviceNeedsRollback_future_start_counterexample:
  "UpgradeStartTime (example_msdef\<lparr>UpgradeStartTime := 18446744073709551566\<rparr>) \<noteq> 0
   \<and> UpgradeExecutionStartTime (example_msdef\<lparr>UpgradeStartTime := 18446744073709551566\<rparr>) = 0
   \<and> UpgradeStartTime (example_msdef\<lparr>UpgradeStartTime := 18446744073709551566\<rparr>) > (200 :: uint64)
   \<and> \<not> MicroserviceNeedsRollback 300 200
          (example_msdef\<lparr>UpgradeStartTime := 18446744073709551566\<rparr>)"
  by (simp add: example_msdef_def MicroserviceNeedsRollback_def)

text \<open>
  C10, amended. For every definition with \<^verbatim>\<open>UpgradeStartTime\<close> not 0,
  \<^verbatim>\<open>UpgradeExecutionStartTime\<close> 0 and \<^verbatim>\<open>UpgradeStartTime\<close> strictly greater than the clock
  value, the subtraction wraps to \<open>now + 2 ^ 64 - UpgradeStartTime\<close>, and
  \<^verbatim>\<open>MicroserviceNeedsRollback\<close> returns true exactly when that value exceeds the timeout;
  it does whenever the timeout is at most the clock value.
\<close>

theorem MicroserviceNeedsRollback_future_start:
  assumes "UpgradeStartTime msdef \<noteq> 0"
    and "UpgradeExecutionStartTime msdef = 0"
    and "now < UpgradeStartTime msdef"
  shows "(MicroserviceNeedsRollback timeout now msdef \<longleftrightarrow>
            unat timeout < unat now + 2 ^ 64 - unat (UpgradeStartTime msdef))
         \<and> (timeout \<le> now \<longrightarrow> MicroserviceNeedsRollback timeout now msdef)"
proof -
  have lt: "unat now < unat (UpgradeStartTime msdef)"
    using assms(3) by (simp add: word_less_nat_alt)
  have wrap: "unat (now - UpgradeStartTime msdef) = unat now + 2 ^ 64 - unat (UpgradeStartTime msdef)"
    using lt by (simp add: unat_sub_if')
  have iff: "MicroserviceNeedsRollback timeout now msdef \<longleftrightarrow>
               unat timeout < unat now + 2 ^ 64 - unat (UpgradeStartTime msdef)"
    using assms(1,2) wrap by (simp add: MicroserviceNeedsRollback_def word_less_nat_alt)
  have bound: "unat (UpgradeStartTime msdef) < 2 ^ 64"
    using unsigned_less [of "UpgradeStartTime msdef", where 'a = nat] by simp
  have "timeout \<le> now \<Longrightarrow> unat timeout < unat now + 2 ^ 64 - unat (UpgradeStartTime msdef)"
    using bound by (simp add: word_le_nat_alt)
  with iff show ?thesis by blast
qed

text \<open>The clock at 1000, the start at 2000, a timeout of 300.\<close>

theorem MicroserviceNeedsRollback_future_start_witness:
  "MicroserviceNeedsRollback 300 1000 (example_msdef\<lparr>UpgradeStartTime := 2000\<rparr>)"
  using MicroserviceNeedsRollback_future_start
          [of "example_msdef\<lparr>UpgradeStartTime := 2000\<rparr>" 1000 300]
  by (simp add: example_msdef_def)

section \<open>Eligibility for an upgrade: properties\<close>

text \<open>
  C5. \<^verbatim>\<open>MicroserviceReadyForUpgrade\<close> returns false for every definition that is archived,
  or has \<^verbatim>\<open>AutoUpgrade\<close> false, or is in the middle of an upgrade (\<^verbatim>\<open>UpgradeStartTime\<close>
  not 0, \<^verbatim>\<open>UpgradeMsReregisteredTime\<close> 0 and \<^verbatim>\<open>UpgradeFailedTime\<close> 0), whatever the
  other fields and the store hold.
\<close>

theorem MicroserviceReadyForUpgrade_denied:
  assumes "Archived msdef \<or> \<not> AutoUpgrade msdef
           \<or> (UpgradeStartTime msdef \<noteq> 0 \<and> UpgradeMsReregisteredTime msdef = 0
                \<and> UpgradeFailedTime msdef = 0)"
  shows "\<not> MicroserviceReadyForUpgrade msdef db"
  using assms by (auto simp add: MicroserviceReadyForUpgrade_def)

text \<open>
  One definition for each of the three reasons; the definition they are made from is
  eligible.
\<close>

theorem MicroserviceReadyForUpgrade_denied_witness:
  "\<not> MicroserviceReadyForUpgrade (example_msdef\<lparr>Archived := True\<rparr>) example_db
   \<and> \<not> MicroserviceReadyForUpgrade (example_msdef\<lparr>AutoUpgrade := False\<rparr>) example_db
   \<and> \<not> MicroserviceReadyForUpgrade (example_msdef\<lparr>UpgradeStartTime := 1000\<rparr>) example_db
   \<and> MicroserviceReadyForUpgrade example_msdef example_db"
  using MicroserviceReadyForUpgrade_denied [of "example_msdef\<lparr>Archived := True\<rparr>" example_db]
    MicroserviceReadyForUpgrade_denied [of "example_msdef\<lparr>AutoUpgrade := False\<rparr>" example_db]
    MicroserviceReadyForUpgrade_denied [of "example_msdef\<lparr>UpgradeStartTime := 1000\<rparr>" example_db]
  by (simp add: example_msdef_def MicroserviceReadyForUpgrade_def)

lemma no_agreements_loop_iff:
  "no_agreements_loop msdef ms_insts \<longleftrightarrow>
     \<not> (\<exists>msi \<in> set ms_insts. MicroserviceDefId msi = Id_ms msdef \<and> AssociatedAgreements msi \<noteq> [])"
  by (induction ms_insts) auto

text \<open>
  C3, as claimed: with \<^verbatim>\<open>ActiveUpgrade\<close> false and the first three checks passed, any
  unarchived instance of the same (SpecRef, Version) with an agreement makes the result
  false. It does not when the instance belongs to another definition: the loop skips
  an instance whose \<^verbatim>\<open>MicroserviceDefId\<close> is not the id of the definition. Here the
  instance has the SpecRef and the Version of the definition \<open>ms1\<close> and holds the
  agreement \<open>ag1\<close>, its \<^verbatim>\<open>MicroserviceDefId\<close> is \<open>ms0\<close>, and the result is true.
\<close>

theorem MicroserviceReadyForUpgrade_agreements_counterexample:
  "\<not> Archived (example_msdef\<lparr>ActiveUpgrade := False\<rparr>)
   \<and> AutoUpgrade (example_msdef\<lparr>ActiveUpgrade := False\<rparr>)
   \<and> UpgradeStartTime (example_msdef\<lparr>ActiveUpgrade := False\<rparr>) = 0
   \<and> \<not> ActiveUpgrade (example_msdef\<lparr>ActiveUpgrade := False\<rparr>)
   \<and> mi_SpecRef (example_instance\<lparr>MicroserviceDefId := ''ms0''\<rparr>)
        = SpecRef (example_msdef\<lparr>ActiveUpgrade := False\<rparr>)
   \<and> mi_Version (example_instance\<lparr>MicroserviceDefId := ''ms0''\<rparr>)
        = Version (example_msdef\<lparr>ActiveUpgrade := False\<rparr>)
   \<and> \<not> mi_Archived (example_instance\<lparr>MicroserviceDefId := ''ms0''\<rparr>)
   \<and> AssociatedAgreements (example_instance\<lparr>MicroserviceDefId := ''ms0''\<rparr>) = [''ag1'']
   \<and> MicroserviceReadyForUpgrade (example_msdef\<lparr>ActiveUpgrade := False\<rparr>)
        (example_db\<lparr>microservice_instances := [example_instance\<lparr>MicroserviceDefId := ''ms0''\<rparr>]\<rparr>)"
  by (simp add: example_msdef_def example_instance_def example_db_def
      MicroserviceReadyForUpgrade_def FindMicroserviceInstances_def AllInstancesMIFilter_def
      UnarchivedMIFilter_def)

text \<open>
  C3, amended. For every definition with \<^verbatim>\<open>ActiveUpgrade\<close> false that passes the
  archived, \<^verbatim>\<open>AutoUpgrade\<close> and mid-upgrade checks, \<^verbatim>\<open>MicroserviceReadyForUpgrade\<close> returns
  false whenever an unarchived instance of the same (SpecRef, Version) whose
  \<^verbatim>\<open>MicroserviceDefId\<close> is the id of the definition has a non-empty
  \<^verbatim>\<open>AssociatedAgreements\<close>, and it returns false whenever the lookup in the instance
  store fails.
\<close>

theorem MicroserviceReadyForUpgrade_agreements:
  assumes "\<not> Archived msdef" and "AutoUpgrade msdef"
    and "\<not> (UpgradeStartTime msdef \<noteq> 0 \<and> UpgradeMsReregisteredTime msdef = 0
              \<and> UpgradeFailedTime msdef = 0)"
    and "\<not> ActiveUpgrade msdef"
  shows "((\<exists>msi \<in> set (microservice_instances db).
             mi_SpecRef msi = SpecRef msdef \<and> mi_Version msi = Version msdef
             \<and> \<not> mi_Archived msi \<and> MicroserviceDefId msi = Id_ms msdef
             \<and> AssociatedAgreements msi \<noteq> [])
          \<longrightarrow> \<not> MicroserviceReadyForUpgrade msdef db)
         \<and> (read_error db \<noteq> None \<longrightarrow> \<not> MicroserviceReadyForUpgrade msdef db)"
  using assms
  by (auto simp add: MicroserviceReadyForUpgrade_def FindMicroserviceInstances_def
      AllInstancesMIFilter_def UnarchivedMIFilter_def no_agreements_loop_iff
      split: option.splits)

text \<open>
  Scenario 4 of the spec: the instance of the definition holds an agreement; and a
  store whose read fails.
\<close>

theorem MicroserviceReadyForUpgrade_agreements_witness:
  "\<not> MicroserviceReadyForUpgrade (example_msdef\<lparr>ActiveUpgrade := False\<rparr>)
        (example_db\<lparr>microservice_instances := [example_instance]\<rparr>)
   \<and> \<not> MicroserviceReadyForUpgrade (example_msdef\<lparr>ActiveUpgrade := False\<rparr>)
        (example_db\<lparr>read_error := Some (External ''database not open'')\<rparr>)"
  using MicroserviceReadyForUpgrade_agreements
          [of "example_msdef\<lparr>ActiveUpgrade := False\<rparr>"
              "example_db\<lparr>microservice_instances := [example_instance]\<rparr>"]
        MicroserviceReadyForUpgrade_agreements
          [of "example_msdef\<lparr>ActiveUpgrade := False\<rparr>"
              "example_db\<lparr>read_error := Some (External ''database not open'')\<rparr>"]
  by (simp add: example_msdef_def example_instance_def example_db_def)

section \<open>The definition to upgrade to: properties\<close>

lemma ConvertToPersistent_Version:
  "ConvertToPersistent c ems org = Inr pms \<Longrightarrow> Version pms = e_Version ems \<and> SpecRef pms = e_SpecRef ems"
  by (auto simp add: ConvertToPersistent_def Let_def split: sum.splits)

lemma strings_Compare_less: "strings_Compare a b < 0 \<longleftrightarrow> a < b"
  by (simp add: strings_Compare_def)

lemma strings_Compare_eq: "strings_Compare a b = 0 \<longleftrightarrow> a = b"
  by (simp add: strings_Compare_def)

lemma upgrade_failed_before_iff:
  "upgrade_failed_before msdef new_msdef msdefs \<longleftrightarrow>
     (\<exists>ms \<in> set msdefs. UpgradeNewMsId msdef = Id_ms ms \<and> MetadataHash ms = MetadataHash new_msdef)"
  by (induction msdefs) auto

text \<open>
  C6. Whenever \<^verbatim>\<open>GetUpgradeMicroserviceDef\<close> returns a candidate (not \<^verbatim>\<open>nil\<close>), the
  \<^verbatim>\<open>Name\<close>, \<^verbatim>\<open>UpgradeVersionRange\<close>, \<^verbatim>\<open>AutoUpgrade\<close> and \<^verbatim>\<open>ActiveUpgrade\<close> of the
  candidate are those of the old definition passed in.
\<close>

theorem GetUpgradeMicroserviceDef_copies:
  assumes "GetUpgradeMicroserviceDef c msdef exchURL deviceId deviceToken db = Inr (Some new_msdef)"
  shows "Name new_msdef = Name msdef
         \<and> UpgradeVersionRange new_msdef = UpgradeVersionRange msdef
         \<and> AutoUpgrade new_msdef = AutoUpgrade msdef
         \<and> ActiveUpgrade new_msdef = ActiveUpgrade msdef"
  using assms
  by (auto simp add: GetUpgradeMicroserviceDef_def Let_def split: sum.splits if_splits)

text \<open>
  Scenario 2 of the spec: the definition is at 1.0.0 with no \<^verbatim>\<open>UpgradeNewMsId\<close>, the
  registry answers with 2.0.0.
\<close>

theorem GetUpgradeMicroserviceDef_copies_witness:
  "\<exists>new_msdef.
     GetUpgradeMicroserviceDef (example_collaborators (example_exchange_def ''2.0.0''))
       example_msdef ''https://exchange/v1/'' ''IBM/node1'' ''token'' example_db = Inr (Some new_msdef)
     \<and> Version new_msdef = ''2.0.0'' \<and> Name new_msdef = ''gps''
     \<and> UpgradeVersionRange new_msdef = ''[1.0.0,INFINITY)''
     \<and> AutoUpgrade new_msdef \<and> ActiveUpgrade new_msdef"
proof -
  obtain new_msdef where run:
    "GetUpgradeMicroserviceDef (example_collaborators (example_exchange_def ''2.0.0''))
       example_msdef ''https://exchange/v1/'' ''IBM/node1'' ''token'' example_db = Inr (Some new_msdef)"
    and v: "Version new_msdef = ''2.0.0''"
    by (simp add: GetUpgradeMicroserviceDef_def ConvertToPersistent_def example_collaborators_def
        example_exchange_def_def example_msdef_def example_db_def strings_Compare_def Let_def)
  from GetUpgradeMicroserviceDef_copies [OF run] v run show ?thesis
    by (simp add: example_msdef_def)
qed

text \<open>
  C2, amended. Let the version range parse, the registry answer and the conversion of
  the answer give the candidate. \<^verbatim>\<open>GetUpgradeMicroserviceDef\<close> returns \<^verbatim>\<open>(nil, nil)\<close> in
  each of these cases: (a) the version string of the candidate is less than
  \<^verbatim>\<open>def.Version\<close> in the byte-wise order of strings; (b) the version strings are equal
  and so are the hashes; (c) \<^verbatim>\<open>def.UpgradeNewMsId\<close> is not empty, the lookup in the store
  succeeds, and an archived definition with that id and with the SpecRef and the Version
  of the candidate is stored whose hash is the hash of the candidate.
\<close>

theorem GetUpgradeMicroserviceDef_no_upgrade:
  assumes "Version_Expression_Factory c (UpgradeVersionRange msdef) = Inr vExp"
    and "GetMicroservice c (SpecRef msdef) (Org msdef) vExp (Arch msdef) exchURL deviceId deviceToken
           = Inr e_msdef"
    and "ConvertToPersistent c e_msdef (Org msdef) = Inr candidate"
  shows "(Version candidate < Version msdef \<longrightarrow>
            GetUpgradeMicroserviceDef c msdef exchURL deviceId deviceToken db = Inr None)
         \<and> (Version candidate = Version msdef \<and> MetadataHash candidate = MetadataHash msdef \<longrightarrow>
            GetUpgradeMicroserviceDef c msdef exchURL deviceId deviceToken db = Inr None)
         \<and> (UpgradeNewMsId msdef \<noteq> '''' \<and> read_error db = None
            \<and> (\<exists>ms \<in> set (microservice_definitions db).
                  Archived ms \<and> SpecRef ms = SpecRef candidate \<and> Version ms = Version candidate
                  \<and> Id_ms ms = UpgradeNewMsId msdef \<and> MetadataHash ms = MetadataHash candidate) \<longrightarrow>
            GetUpgradeMicroserviceDef c msdef exchURL deviceId deviceToken db = Inr None)"
proof -
  have v: "e_Version e_msdef = Version candidate"
    using ConvertToPersistent_Version [OF assms(3)] by simp
  show ?thesis
    using assms v
    by (auto simp add: GetUpgradeMicroserviceDef_def Let_def strings_Compare_less
        strings_Compare_eq FindMicroserviceDefs_def UrlVersionMSFilter_def ArchivedMSFilter_def
        upgrade_failed_before_iff)
qed

text \<open>
  One run for each case: the registry answers with 0.9.0, with 1.0.0 (scenario 1 of the
  spec), and with 2.0.0 while the failed upgrade to 2.0.0 is archived (scenario 3).
\<close>

theorem GetUpgradeMicroserviceDef_no_upgrade_witness:
  "GetUpgradeMicroserviceDef (example_collaborators (example_exchange_def ''0.9.0''))
       example_msdef ''https://exchange/v1/'' ''IBM/node1'' ''token'' example_db = Inr None
   \<and> GetUpgradeMicroserviceDef (example_collaborators (example_exchange_def ''1.0.0''))
       example_msdef ''https://exchange/v1/'' ''IBM/node1'' ''token'' example_db = Inr None
   \<and> GetUpgradeMicroserviceDef (example_collaborators (example_exchange_def ''2.0.0''))
       (example_msdef\<lparr>UpgradeNewMsId := ''ms2''\<rparr>) ''https://exchange/v1/'' ''IBM/node1'' ''token''
       (example_db\<lparr>microservice_definitions := [example_archived_msdef]\<rparr>) = Inr None"
proof -
  have range: "\<And>a m. Version_Expression_Factory (example_collaborators a) (UpgradeVersionRange m)
                 = Inr (UpgradeVersionRange m)"
    by (simp add: example_collaborators_def)
  have answer: "\<And>a m. GetMicroservice (example_collaborators a) (SpecRef m) (Org m)
                   (UpgradeVersionRange m) (Arch m) ''https://exchange/v1/'' ''IBM/node1'' ''token''
                 = Inr a"
    by (simp add: example_collaborators_def)
  have "\<exists>older.
     ConvertToPersistent (example_collaborators (example_exchange_def ''0.9.0''))
       (example_exchange_def ''0.9.0'') (Org example_msdef) = Inr older
     \<and> Version older < Version example_msdef"
    by (simp add: ConvertToPersistent_def example_collaborators_def example_exchange_def_def
        example_msdef_def Let_def)
  then obtain older where older:
    "ConvertToPersistent (example_collaborators (example_exchange_def ''0.9.0''))
       (example_exchange_def ''0.9.0'') (Org example_msdef) = Inr older"
    and older_less: "Version older < Version example_msdef"
    by blast
  have "\<exists>same.
     ConvertToPersistent (example_collaborators (example_exchange_def ''1.0.0''))
       (example_exchange_def ''1.0.0'') (Org example_msdef) = Inr same
     \<and> Version same = Version example_msdef
     \<and> MetadataHash same = MetadataHash example_msdef"
    by (simp add: ConvertToPersistent_def example_collaborators_def example_exchange_def_def
        example_msdef_def Let_def)
  then obtain same where same:
    "ConvertToPersistent (example_collaborators (example_exchange_def ''1.0.0''))
       (example_exchange_def ''1.0.0'') (Org example_msdef) = Inr same"
    and same_eq: "Version same = Version example_msdef"
      "MetadataHash same = MetadataHash example_msdef"
    by blast
  have "\<exists>newer.
     ConvertToPersistent (example_collaborators (example_exchange_def ''2.0.0''))
       (example_exchange_def ''2.0.0'') (Org (example_msdef\<lparr>UpgradeNewMsId := ''ms2''\<rparr>)) = Inr newer
     \<and> SpecRef example_archived_msdef = SpecRef newer
     \<and> Version example_archived_msdef = Version newer
     \<and> MetadataHash example_archived_msdef = MetadataHash newer"
    by (simp add: ConvertToPersistent_def example_collaborators_def example_exchange_def_def
        example_msdef_def example_archived_msdef_def Let_def)
  then obtain newer where newer:
    "ConvertToPersistent (example_collaborators (example_exchange_def ''2.0.0''))
       (example_exchange_def ''2.0.0'') (Org (example_msdef\<lparr>UpgradeNewMsId := ''ms2''\<rparr>)) = Inr newer"
    and newer_eq: "SpecRef example_archived_msdef = SpecRef newer"
      "Version example_archived_msdef = Version newer"
      "MetadataHash example_archived_msdef = MetadataHash newer"
    by blast
  have stored: "Archived example_archived_msdef"
    "Id_ms example_archived_msdef = UpgradeNewMsId (example_msdef\<lparr>UpgradeNewMsId := ''ms2''\<rparr>)"
    by (simp_all add: example_archived_msdef_def)
  from GetUpgradeMicroserviceDef_no_upgrade [OF range answer older, of example_db] older_less
  have a: "GetUpgradeMicroserviceDef (example_collaborators (example_exchange_def ''0.9.0''))
       example_msdef ''https://exchange/v1/'' ''IBM/node1'' ''token'' example_db = Inr None"
    by blast
  from GetUpgradeMicroserviceDef_no_upgrade [OF range answer same, of example_db] same_eq
  have b: "GetUpgradeMicroserviceDef (example_collaborators (example_exchange_def ''1.0.0''))
       example_msdef ''https://exchange/v1/'' ''IBM/node1'' ''token'' example_db = Inr None"
    by blast
  from GetUpgradeMicroserviceDef_no_upgrade
         [OF range answer newer, of "example_db\<lparr>microservice_definitions := [example_archived_msdef]\<rparr>"]
       newer_eq stored
  have c: "GetUpgradeMicroserviceDef (example_collaborators (example_exchange_def ''2.0.0''))
       (example_msdef\<lparr>UpgradeNewMsId := ''ms2''\<rparr>) ''https://exchange/v1/'' ''IBM/node1'' ''token''
       (example_db\<lparr>microservice_definitions := [example_archived_msdef]\<rparr>) = Inr None"
    by (simp add: example_db_def)
  from a b c show ?thesis by simp
qed

text \<open>
  C2, as claimed: case (c) asks only for an archived definition with the id
  \<^verbatim>\<open>def.UpgradeNewMsId\<close> and the hash of the candidate. The code looks the archived
  definitions up in the store, and when that lookup fails it returns the error, not
  \<^verbatim>\<open>(nil, nil)\<close>. Here scenario 3 runs on a store whose read fails.
\<close>

theorem GetUpgradeMicroserviceDef_no_upgrade_counterexample:
  "UpgradeNewMsId (example_msdef\<lparr>UpgradeNewMsId := ''ms2''\<rparr>) = ''ms2''
   \<and> Archived example_archived_msdef
   \<and> Id_ms example_archived_msdef = ''ms2''
   \<and> (\<exists>candidate.
         ConvertToPersistent (example_collaborators (example_exchange_def ''2.0.0''))
           (example_exchange_def ''2.0.0'') ''IBM'' = Inr candidate
         \<and> MetadataHash example_archived_msdef = MetadataHash candidate)
   \<and> GetUpgradeMicroserviceDef (example_collaborators (example_exchange_def ''2.0.0''))
       (example_msdef\<lparr>UpgradeNewMsId := ''ms2''\<rparr>) ''https://exchange/v1/'' ''IBM/node1'' ''token''
       (example_db\<lparr> microservice_definitions := [example_archived_msdef],
                    read_error := Some (External ''database not open'') \<rparr>)
      = Inl (FailedToGetArchivedForVersion ''https://bluehorizon.network/microservices/gps'' ''1.0.0''
               (External ''database not open''))"
  by (simp add: GetUpgradeMicroserviceDef_def ConvertToPersistent_def example_collaborators_def
      example_exchange_def_def example_msdef_def example_archived_msdef_def example_db_def
      strings_Compare_def FindMicroserviceDefs_def Let_def MS_SHARING_MODE_EXCLUSIVE_def
      MS_SHARING_MODE_SINGLE_def MS_SHARING_MODE_MULTIPLE_def)

section \<open>The definition to roll back to: properties\<close>

lemma rollback_loop_find:
  "rollback_loop msdef msdefs = find (\<lambda>ms. UpgradeNewMsId ms = Id_ms msdef) msdefs"
  by (induction msdefs) auto

lemma find_filter_conj: "find P (filter Q xs) = find (\<lambda>x. Q x \<and> P x) xs"
  by (induction xs) auto

text \<open>
  C8, as claimed: an archived definition with the SpecRef of the given one and with
  \<^verbatim>\<open>UpgradeNewMsId\<close> equal to its id is returned when one exists. It is not when the
  lookup in the store fails: the function then returns \<^verbatim>\<open>(nil, err)\<close>. Here the store
  holds the archived predecessor of \<open>ms2\<close> and its read fails.
\<close>

theorem GetRollbackMicroserviceDef_counterexample:
  "Archived (example_msdef\<lparr>Archived := True, UpgradeNewMsId := ''ms2''\<rparr>)
   \<and> SpecRef (example_msdef\<lparr>Archived := True, UpgradeNewMsId := ''ms2''\<rparr>)
       = SpecRef (example_msdef\<lparr>Id_ms := ''ms2'', Version := ''2.0.0''\<rparr>)
   \<and> UpgradeNewMsId (example_msdef\<lparr>Archived := True, UpgradeNewMsId := ''ms2''\<rparr>)
       = Id_ms (example_msdef\<lparr>Id_ms := ''ms2'', Version := ''2.0.0''\<rparr>)
   \<and> GetRollbackMicroserviceDef (example_msdef\<lparr>Id_ms := ''ms2'', Version := ''2.0.0''\<rparr>)
        (example_db\<lparr> microservice_definitions :=
                       [example_msdef\<lparr>Archived := True, UpgradeNewMsId := ''ms2''\<rparr>],
                     read_error := Some (External ''database not open'') \<rparr>)
      = Inl (FailedToGetArchived ''https://bluehorizon.network/microservices/gps''
               (External ''database not open''))"
  by (simp add: GetRollbackMicroserviceDef_def FindMicroserviceDefs_def example_msdef_def
      example_db_def)

text \<open>
  C8, amended. When the lookup in the store succeeds, \<^verbatim>\<open>GetRollbackMicroserviceDef\<close>
  returns the first stored definition that is archived, has the SpecRef of the given
  definition and has \<^verbatim>\<open>UpgradeNewMsId\<close> equal to its id, and \<^verbatim>\<open>(nil, nil)\<close> when there
  is none (\<open>find\<close> gives the first element of a list that satisfies a predicate, and
  \<open>None\<close> when none does). When the lookup fails it returns the error. The function is
  a function of the store alone and returns no store: no stored definition changes.
\<close>

theorem GetRollbackMicroserviceDef_first_match:
  "(read_error db = None \<longrightarrow>
      GetRollbackMicroserviceDef msdef db
        = Inr (find (\<lambda>ms. SpecRef ms = SpecRef msdef \<and> Archived ms \<and> UpgradeNewMsId ms = Id_ms msdef)
                 (microservice_definitions db)))
   \<and> (\<forall>err. read_error db = Some err \<longrightarrow>
         GetRollbackMicroserviceDef msdef db = Inl (FailedToGetArchived (SpecRef msdef) err))"
  by (simp add: GetRollbackMicroserviceDef_def FindMicroserviceDefs_def UrlMSFilter_def
      ArchivedMSFilter_def rollback_loop_find find_filter_conj)

text \<open>
  A store with an unrelated archived definition and two archived predecessors of
  \<open>ms2\<close>: the first predecessor is returned. An empty store. A store whose read fails.
\<close>

theorem GetRollbackMicroserviceDef_first_match_witness:
  "GetRollbackMicroserviceDef (example_msdef\<lparr>Id_ms := ''ms2'', Version := ''2.0.0''\<rparr>)
        (example_db\<lparr> microservice_definitions :=
                       [example_msdef\<lparr>Id_ms := ''ms0'', Version := ''0.9.0'', Archived := True,
                                       UpgradeNewMsId := ''ms1''\<rparr>,
                        example_msdef\<lparr>Archived := True, UpgradeNewMsId := ''ms2''\<rparr>,
                        example_msdef\<lparr>Id_ms := ''ms3'', Archived := True, UpgradeNewMsId := ''ms2''\<rparr>] \<rparr>)
      = Inr (Some (example_msdef\<lparr>Archived := True, UpgradeNewMsId := ''ms2''\<rparr>))
   \<and> GetRollbackMicroserviceDef example_msdef example_db = Inr None
   \<and> GetRollbackMicroserviceDef example_msdef
        (example_db\<lparr>read_error := Some (External ''database not open'')\<rparr>)
      = Inl (FailedToGetArchived ''https://bluehorizon.network/microservices/gps''
               (External ''database not open''))"
  using GetRollbackMicroserviceDef_first_match
          [of "example_db\<lparr> microservice_definitions :=
                       [example_msdef\<lparr>Id_ms := ''ms0'', Version := ''0.9.0'', Archived := True,
                                       UpgradeNewMsId := ''ms1''\<rparr>,
                        example_msdef\<lparr>Archived := True, UpgradeNewMsId := ''ms2''\<rparr>,
                        example_msdef\<lparr>Id_ms := ''ms3'', Archived := True, UpgradeNewMsId := ''ms2''\<rparr>] \<rparr>"
              "example_msdef\<lparr>Id_ms := ''ms2'', Version := ''2.0.0''\<rparr>"]
        GetRollbackMicroserviceDef_first_match [of example_db example_msdef]
        GetRollbackMicroserviceDef_first_match
          [of "example_db\<lparr>read_error := Some (External ''database not open'')\<rparr>" example_msdef]
  by (simp add: example_msdef_def example_db_def)

section \<open>Compilation of the attributes into a policy: properties\<close>

text \<open>
  The applicable attributes split into the unscoped ones and the ones scoped to the
  URL; the values of \<^verbatim>\<open>serviceAgreementProtocols\<close> and \<^verbatim>\<open>properties\<close> after the loop
  are those of the last attribute of their kind, and the loop does not panic when every
  agreement-protocol attribute holds a list.
\<close>

lemma applicable_common:
  "filter (\<lambda>attr. SensorUrls (GetMeta attr) = [])
     (filter (\<lambda>attr. SensorUrls (GetMeta attr) = [] \<or> url \<in> set (SensorUrls (GetMeta attr))) attrs)
   = filter (\<lambda>attr. SensorUrls (GetMeta attr) = []) attrs"
  by (induction attrs) auto

lemma applicable_specific:
  "filter (\<lambda>attr. SensorUrls (GetMeta attr) \<noteq> [])
     (filter (\<lambda>attr. SensorUrls (GetMeta attr) = [] \<or> url \<in> set (SensorUrls (GetMeta attr))) attrs)
   = filter (\<lambda>attr. url \<in> set (SensorUrls (GetMeta attr))) attrs"
  by (induction attrs) auto

lemma protocols_of_append: "protocols_of (xs @ ys) = protocols_of xs @ protocols_of ys"
  by (induction xs rule: protocols_of.induct) auto

lemma handle_attribute_Some:
  "handle_attribute attr v = Some v' \<Longrightarrow>
     (protocols_of [attr] = [] \<longrightarrow> serviceAgreementProtocols v' = serviceAgreementProtocols v)
     \<and> (protocols_of [attr] \<noteq> [] \<longrightarrow> protocols_of [attr] = [ISlice (serviceAgreementProtocols v')])
     \<and> (mappings_of [attr] = [] \<longrightarrow> properties v' = properties v)
     \<and> (mappings_of [attr] \<noteq> [] \<longrightarrow> mappings_of [attr] = [properties v'])"
  by (cases attr) (auto split: iface.splits)

lemma handle_attribute_total:
  "list_all is_slice (protocols_of [attr]) \<Longrightarrow> \<exists>v'. handle_attribute attr v = Some v'"
  by (cases attr) (auto split: iface.splits)

lemma protocols_of_Cons: "protocols_of (attr # attrs) = protocols_of [attr] @ protocols_of attrs"
  using protocols_of_append [of "[attr]" attrs] by simp

lemma mappings_of_append: "mappings_of (xs @ ys) = mappings_of xs @ mappings_of ys"
  by (induction xs rule: mappings_of.induct) auto

lemma mappings_of_Cons: "mappings_of (attr # attrs) = mappings_of [attr] @ mappings_of attrs"
  using mappings_of_append [of "[attr]" attrs] by simp

lemma loop_total:
  "list_all is_slice (protocols_of attrs) \<Longrightarrow> \<exists>v'. handle_attributes_loop attrs v = Some v'"
proof (induction attrs arbitrary: v)
  case Nil
  then show ?case by simp
next
  case (Cons attr attrs)
  from Cons.prems have one: "list_all is_slice (protocols_of [attr])"
    and rest: "list_all is_slice (protocols_of attrs)"
    by (simp_all add: protocols_of_Cons [of attr attrs])
  from handle_attribute_total [OF one] obtain v1 where "handle_attribute attr v = Some v1"
    by blast
  with Cons.IH [OF rest, of v1] show ?case by simp
qed

lemma loop_protocols:
  "handle_attributes_loop attrs v = Some v' \<Longrightarrow>
     (protocols_of attrs = [] \<longrightarrow> serviceAgreementProtocols v' = serviceAgreementProtocols v)
     \<and> (protocols_of attrs \<noteq> [] \<longrightarrow> last (protocols_of attrs) = ISlice (serviceAgreementProtocols v'))"
proof (induction attrs arbitrary: v)
  case Nil
  then show ?case by simp
next
  case (Cons attr attrs)
  from Cons.prems obtain v1 where one: "handle_attribute attr v = Some v1"
    and rest: "handle_attributes_loop attrs v1 = Some v'"
    by (auto split: option.splits)
  from handle_attribute_Some [OF one] Cons.IH [OF rest] show ?case
    by (auto simp add: protocols_of_Cons [of attr attrs] split: if_splits)
qed

lemma loop_properties:
  "handle_attributes_loop attrs v = Some v' \<Longrightarrow>
     (mappings_of attrs = [] \<longrightarrow> properties v' = properties v)
     \<and> (mappings_of attrs \<noteq> [] \<longrightarrow> last (mappings_of attrs) = properties v')"
proof (induction attrs arbitrary: v)
  case Nil
  then show ?case by simp
next
  case (Cons attr attrs)
  from Cons.prems obtain v1 where one: "handle_attribute attr v = Some v1"
    and rest: "handle_attributes_loop attrs v1 = Some v'"
    by (auto split: option.splits)
  from handle_attribute_Some [OF one] Cons.IH [OF rest] show ?case
    by (auto simp add: mappings_of_Cons [of attr attrs] split: if_splits)
qed

lemma handleServiceAttributes_Some:
  assumes "handleServiceAttributes attrs v = Some v'"
  shows "(protocols_of attrs = [] \<longrightarrow> serviceAgreementProtocols v' = serviceAgreementProtocols v)
     \<and> (protocols_of attrs \<noteq> [] \<longrightarrow> last (protocols_of attrs) = ISlice (serviceAgreementProtocols v'))
     \<and> (mappings_of attrs \<noteq> [] \<longrightarrow> (\<forall>key val. last (mappings_of attrs) key = Some val \<longrightarrow> props v' key = Some val))"
proof -
  from assms obtain w where loop: "handle_attributes_loop attrs v = Some w"
    and v': "v' = (if properties w \<noteq> Map.empty then w\<lparr>props := props w ++ properties w\<rparr> else w)"
    by (auto simp add: handleServiceAttributes_def split: option.splits if_splits)
  from loop_protocols [OF loop] loop_properties [OF loop] v' show ?thesis
    by auto
qed

lemma handleServiceAttributes_total:
  "list_all is_slice (protocols_of attrs) \<Longrightarrow> \<exists>v'. handleServiceAttributes attrs v = Some v'"
  using loop_total [of attrs v] by (auto simp add: handleServiceAttributes_def)

lemma GenMicroservicePolicy_read:
  "read_error db = None \<Longrightarrow>
   GenMicroservicePolicy pk msdef policyPath db e deviceOrg =
     (case handleServiceAttributes (common_attributes db (SpecRef msdef)) initial_vars of
        None \<Rightarrow> (Panic, e)
      | Some v1 \<Rightarrow>
     (case handleServiceAttributes (specific_attributes db (SpecRef msdef)) v1 of
        None \<Rightarrow> (Panic, e)
      | Some v \<Rightarrow>
     (case ConvertToAgreementProtocolList pk (serviceAgreementProtocols v) of
        Inl err \<Rightarrow> (Return (Some (ErrorConvertingAgreementProtocolList err)), e)
      | Inr list \<Rightarrow>
          (case GeneratePolicy pk (SpecRef msdef) (Org msdef) (Name msdef) (Version msdef)
                  (policyArch v) (props v) (haPartner v) (meterPolicy v)
                  (counterPartyProperties v) list
                  (if Sharable msdef = MS_SHARING_MODE_SINGLE
                      \<or> Sharable msdef = MS_SHARING_MODE_MULTIPLE then 2 else 1)
                  policyPath deviceOrg of
             Inl err \<Rightarrow>
               (Return (Some (FailedToGeneratePolicy (SpecRef msdef) (Version msdef) err)), e)
           | Inr msg \<Rightarrow> (Return None, e @ [msg])))))"
  unfolding GenMicroservicePolicy_def Let_def
  by (simp add: FindApplicableAttributes_def common_attributes_def specific_attributes_def
      applicable_common applicable_specific del: filter_filter cong: option.case_cong)

lemma GeneratePolicy_Inr:
  "GeneratePolicy pk a b c d arch prps ha m cp agps n pp org = Inr msg \<Longrightarrow>
     \<exists>pol. msg = PolicyCreatedMessage pol \<and> p_Properties pol = prps \<and> p_MaxAgreements pol = n"
  by (auto simp add: GeneratePolicy_def Let_def split: option.splits)

lemma GenMicroservicePolicy_emits:
  "snd (GenMicroservicePolicy pk msdef policyPath db e deviceOrg) \<noteq> e \<Longrightarrow>
     fst (GenMicroservicePolicy pk msdef policyPath db e deviceOrg) = Return None
     \<and> (\<exists>msg. snd (GenMicroservicePolicy pk msdef policyPath db e deviceOrg) = e @ [msg])"
proof -
  define maxAgreements :: int where
    "maxAgreements = (if Sharable msdef = MS_SHARING_MODE_SINGLE
                         \<or> Sharable msdef = MS_SHARING_MODE_MULTIPLE then 2 else 1)"
  assume "snd (GenMicroservicePolicy pk msdef policyPath db e deviceOrg) \<noteq> e"
  then show ?thesis
    unfolding GenMicroservicePolicy_def Let_def maxAgreements_def [symmetric]
    by (auto split: sum.splits option.splits)
qed

lemma effective_protocols:
  assumes common: "handleServiceAttributes cs initial_vars = Some v1"
    and specific: "handleServiceAttributes ss v1 = Some v"
    and eff: "protocols_of (cs @ ss) = [] \<and> agpl = []
              \<or> protocols_of (cs @ ss) \<noteq> [] \<and> last (protocols_of (cs @ ss)) = ISlice agpl"
  shows "serviceAgreementProtocols v = agpl"
proof -
  note c = handleServiceAttributes_Some [OF common]
  note s = handleServiceAttributes_Some [OF specific]
  have init: "serviceAgreementProtocols initial_vars = []"
    by (simp add: initial_vars_def)
  show ?thesis
  proof (cases "protocols_of ss = []")
    case True
    with c s eff init show ?thesis
      by (cases "protocols_of cs = []") (auto simp add: protocols_of_append)
  next
    case False
    with s eff show ?thesis
      by (auto simp add: protocols_of_append)
  qed
qed

lemmas run_defs =
  GenMicroservicePolicy_def FindApplicableAttributes_def example_db_def example_msdef_def
  common_region_def common_compute_def common_protocols_def gps_region_def gps_owner_def
  gps_protocols_def common_meta_def gps_meta_def handleServiceAttributes_def initial_vars_def
  example_policy_pkg_def GeneratePolicy_def Let_def FormatInt_def FormatUint.simps
  MS_SHARING_MODE_EXCLUSIVE_def MS_SHARING_MODE_SINGLE_def MS_SHARING_MODE_MULTIPLE_def

text \<open>
  C9. \<^verbatim>\<open>GenMicroservicePolicy\<close> derives \<^verbatim>\<open>maxAgreements\<close> as exactly 1 when the sharing
  mode of the definition is exclusive and as exactly 2 when it is single or multiple:
  whenever the function sends a policy, the max agreements of the policy have that
  value.
\<close>

theorem GenMicroservicePolicy_maxAgreements:
  assumes "GenMicroservicePolicy pk msdef policyPath db e deviceOrg
             = (result, e @ [PolicyCreatedMessage pol])"
  shows "(Sharable msdef = MS_SHARING_MODE_EXCLUSIVE \<longrightarrow> p_MaxAgreements pol = 1)
         \<and> (Sharable msdef = MS_SHARING_MODE_SINGLE \<or> Sharable msdef = MS_SHARING_MODE_MULTIPLE
              \<longrightarrow> p_MaxAgreements pol = 2)"
proof (cases "read_error db")
  case (Some err)
  with assms show ?thesis
    by (simp add: GenMicroservicePolicy_def FindApplicableAttributes_def)
next
  case None
  from assms GenMicroservicePolicy_read [OF None, of pk msdef policyPath e deviceOrg]
  show ?thesis
    by (auto simp add: MS_SHARING_MODE_EXCLUSIVE_def MS_SHARING_MODE_SINGLE_def
        MS_SHARING_MODE_MULTIPLE_def split: option.splits sum.splits dest!: GeneratePolicy_Inr)
qed

text \<open>One run for each sharing mode, on a store without attributes.\<close>

theorem GenMicroservicePolicy_maxAgreements_witness:
  "(\<exists>pol. GenMicroservicePolicy example_policy_pkg example_msdef ''/etc/policy/'' example_db []
             ''IBM'' = (Return None, [PolicyCreatedMessage pol]) \<and> p_MaxAgreements pol = 1)
   \<and> (\<exists>pol. GenMicroservicePolicy example_policy_pkg (example_msdef\<lparr>Sharable := ''single''\<rparr>)
             ''/etc/policy/'' example_db [] ''IBM'' = (Return None, [PolicyCreatedMessage pol])
           \<and> p_MaxAgreements pol = 2)
   \<and> (\<exists>pol. GenMicroservicePolicy example_policy_pkg (example_msdef\<lparr>Sharable := ''multiple''\<rparr>)
             ''/etc/policy/'' example_db [] ''IBM'' = (Return None, [PolicyCreatedMessage pol])
           \<and> p_MaxAgreements pol = 2)"
proof -
  have "\<exists>pol. GenMicroservicePolicy example_policy_pkg example_msdef ''/etc/policy/'' example_db []
             ''IBM'' = (Return None, [] @ [PolicyCreatedMessage pol])"
    by (simp add: run_defs)
  then obtain p1 where r1:
    "GenMicroservicePolicy example_policy_pkg example_msdef ''/etc/policy/'' example_db []
             ''IBM'' = (Return None, [] @ [PolicyCreatedMessage p1])"
    by blast
  have s1: "Sharable example_msdef = MS_SHARING_MODE_EXCLUSIVE"
    by (simp add: example_msdef_def MS_SHARING_MODE_EXCLUSIVE_def)
  have "\<exists>pol. GenMicroservicePolicy example_policy_pkg (example_msdef\<lparr>Sharable := ''single''\<rparr>)
             ''/etc/policy/'' example_db [] ''IBM'' = (Return None, [] @ [PolicyCreatedMessage pol])"
    by (simp add: run_defs)
  then obtain p2 where r2:
    "GenMicroservicePolicy example_policy_pkg (example_msdef\<lparr>Sharable := ''single''\<rparr>)
             ''/etc/policy/'' example_db [] ''IBM'' = (Return None, [] @ [PolicyCreatedMessage p2])"
    by blast
  have s2: "Sharable (example_msdef\<lparr>Sharable := ''single''\<rparr>) = MS_SHARING_MODE_SINGLE"
    by (simp add: MS_SHARING_MODE_SINGLE_def)
  have "\<exists>pol. GenMicroservicePolicy example_policy_pkg (example_msdef\<lparr>Sharable := ''multiple''\<rparr>)
             ''/etc/policy/'' example_db [] ''IBM'' = (Return None, [] @ [PolicyCreatedMessage pol])"
    by (simp add: run_defs)
  then obtain p3 where r3:
    "GenMicroservicePolicy example_policy_pkg (example_msdef\<lparr>Sharable := ''multiple''\<rparr>)
             ''/etc/policy/'' example_db [] ''IBM'' = (Return None, [] @ [PolicyCreatedMessage p3])"
    by blast
  have s3: "Sharable (example_msdef\<lparr>Sharable := ''multiple''\<rparr>) = MS_SHARING_MODE_MULTIPLE"
    by (simp add: MS_SHARING_MODE_MULTIPLE_def)
  from GenMicroservicePolicy_maxAgreements [OF r1] s1 r1
    GenMicroservicePolicy_maxAgreements [OF r2] s2 r2
    GenMicroservicePolicy_maxAgreements [OF r3] s3 r3
  show ?thesis by simp
qed

text \<open>
  C7. When a property key appears in both a common (unscoped) and a specific (scoped)
  property attribute, the value of the specific attribute is to appear in the property
  bag of the policy: the code applies the common attributes first and the specific ones
  second, to override the common values, as its comment says. With one specific
  property attribute it does: the region is \<open>eu\<close> in the common attribute and \<open>us\<close> in
  the specific one, and the policy holds \<open>us\<close>. With a further specific property
  attribute that holds an owner only it does not: \<^verbatim>\<open>properties\<close> is assigned, not merged,
  and written into \<^verbatim>\<open>props\<close> only after the loop, so the mappings of the first specific
  attribute are lost and the region of the policy is the common value \<open>eu\<close>.
\<close>

theorem GenMicroservicePolicy_specific_property_lost:
  "common_region = PropertyAttributes \<lparr>SensorUrls = []\<rparr> [''region'' \<mapsto> IString ''eu'']
   \<and> gps_region = PropertyAttributes \<lparr>SensorUrls = [SpecRef example_msdef]\<rparr>
                     [''region'' \<mapsto> IString ''us'']
   \<and> gps_owner = PropertyAttributes \<lparr>SensorUrls = [SpecRef example_msdef]\<rparr>
                    [''owner'' \<mapsto> IString ''ops'']
   \<and> (\<exists>pol. GenMicroservicePolicy example_policy_pkg example_msdef ''/etc/policy/''
           (example_db\<lparr>service_attributes := [common_region, gps_region]\<rparr>)
           [] ''IBM'' = (Return None, [PolicyCreatedMessage pol])
         \<and> p_Properties pol ''region'' = Some (IString ''us''))
   \<and> (\<exists>pol. GenMicroservicePolicy example_policy_pkg example_msdef ''/etc/policy/''
           (example_db\<lparr>service_attributes := [common_region, gps_region, gps_owner]\<rparr>)
           [] ''IBM'' = (Return None, [PolicyCreatedMessage pol])
         \<and> p_Properties pol ''region'' = Some (IString ''eu'')
         \<and> p_Properties pol ''owner'' = Some (IString ''ops''))"
  by (simp add: run_defs)

text \<open>
  C4, as claimed: a malformed agreement-protocol attribute makes the function return an
  error and send nothing. It does not when a later attribute overrides it: the list of
  the common attribute does not convert, the specific attribute replaces it, and the
  policy is sent.
\<close>

theorem GenMicroservicePolicy_errors_counterexample:
  "common_protocols = AgreementProtocolAttributes \<lparr>SensorUrls = []\<rparr> (ISlice [IString ''Basic''])
   \<and> ConvertToAgreementProtocolList example_policy_pkg [IString ''Basic'']
       = Inl (External ''could not convert agreement protocol list element to a map'')
   \<and> (\<exists>pol. GenMicroservicePolicy example_policy_pkg example_msdef ''/etc/policy/''
         (example_db\<lparr>service_attributes := [common_protocols, gps_protocols]\<rparr>) [] ''IBM''
         = (Return None, [PolicyCreatedMessage pol]) \<and> p_AgreementProtocols pol = [''Basic''])"
  by (simp add: run_defs)

text \<open>
  C4, amended. \<^verbatim>\<open>GenMicroservicePolicy\<close> returns an error and sends no message on any
  error of the attribute store. When the store is read and every applicable
  agreement-protocol attribute holds a list, it returns an error and sends no message
  whenever the list in effect fails conversion: the list of the last applicable
  agreement-protocol attribute, the common attributes taken first and the specific ones
  second (the empty list when there is none). A message is sent only when the function
  returns \<^verbatim>\<open>nil\<close>, and then exactly one. What happens when an agreement-protocol
  attribute holds a value that is not a list is left out here.
\<close>

theorem GenMicroservicePolicy_errors:
  "(\<forall>err. read_error db = Some err \<longrightarrow>
      GenMicroservicePolicy pk msdef policyPath db e deviceOrg
        = (Return (Some (FailedToGetAttributes (SpecRef msdef) err)), e))
   \<and> (\<forall>agpl err.
        read_error db = None
        \<and> list_all is_slice
            (protocols_of (common_attributes db (SpecRef msdef) @ specific_attributes db (SpecRef msdef)))
        \<and> (protocols_of (common_attributes db (SpecRef msdef) @ specific_attributes db (SpecRef msdef)) = []
              \<and> agpl = []
            \<or> protocols_of (common_attributes db (SpecRef msdef) @ specific_attributes db (SpecRef msdef)) \<noteq> []
              \<and> last (protocols_of (common_attributes db (SpecRef msdef)
                                      @ specific_attributes db (SpecRef msdef))) = ISlice agpl)
        \<and> ConvertToAgreementProtocolList pk agpl = Inl err \<longrightarrow>
      GenMicroservicePolicy pk msdef policyPath db e deviceOrg
        = (Return (Some (ErrorConvertingAgreementProtocolList err)), e))
   \<and> (snd (GenMicroservicePolicy pk msdef policyPath db e deviceOrg) \<noteq> e \<longrightarrow>
        fst (GenMicroservicePolicy pk msdef policyPath db e deviceOrg) = Return None
        \<and> (\<exists>msg. snd (GenMicroservicePolicy pk msdef policyPath db e deviceOrg) = e @ [msg]))"
proof (intro conjI allI impI)
  fix err
  assume "read_error db = Some err"
  then show "GenMicroservicePolicy pk msdef policyPath db e deviceOrg
        = (Return (Some (FailedToGetAttributes (SpecRef msdef) err)), e)"
    by (simp add: GenMicroservicePolicy_def FindApplicableAttributes_def)
next
  fix agpl err
  assume a: "read_error db = None
        \<and> list_all is_slice
            (protocols_of (common_attributes db (SpecRef msdef) @ specific_attributes db (SpecRef msdef)))
        \<and> (protocols_of (common_attributes db (SpecRef msdef) @ specific_attributes db (SpecRef msdef)) = []
              \<and> agpl = []
            \<or> protocols_of (common_attributes db (SpecRef msdef) @ specific_attributes db (SpecRef msdef)) \<noteq> []
              \<and> last (protocols_of (common_attributes db (SpecRef msdef)
                                      @ specific_attributes db (SpecRef msdef))) = ISlice agpl)
        \<and> ConvertToAgreementProtocolList pk agpl = Inl err"
  then have read: "read_error db = None"
    and cs: "list_all is_slice (protocols_of (common_attributes db (SpecRef msdef)))"
    and ss: "list_all is_slice (protocols_of (specific_attributes db (SpecRef msdef)))"
    and conv: "ConvertToAgreementProtocolList pk agpl = Inl err"
    by (simp_all add: protocols_of_append)
  from handleServiceAttributes_total [OF cs] obtain v1 where
    common: "handleServiceAttributes (common_attributes db (SpecRef msdef)) initial_vars = Some v1"
    by blast
  from handleServiceAttributes_total [OF ss] obtain v where
    specific: "handleServiceAttributes (specific_attributes db (SpecRef msdef)) v1 = Some v"
    by blast
  from a have "serviceAgreementProtocols v = agpl"
    by (intro effective_protocols [OF common specific]) blast
  with common specific conv GenMicroservicePolicy_read [OF read, of pk msdef policyPath e deviceOrg]
  show "GenMicroservicePolicy pk msdef policyPath db e deviceOrg
        = (Return (Some (ErrorConvertingAgreementProtocolList err)), e)"
    by simp
next
  assume "snd (GenMicroservicePolicy pk msdef policyPath db e deviceOrg) \<noteq> e"
  from GenMicroservicePolicy_emits [OF this]
  show "fst (GenMicroservicePolicy pk msdef policyPath db e deviceOrg) = Return None"
    by blast
next
  assume "snd (GenMicroservicePolicy pk msdef policyPath db e deviceOrg) \<noteq> e"
  from GenMicroservicePolicy_emits [OF this]
  show "\<exists>msg. snd (GenMicroservicePolicy pk msdef policyPath db e deviceOrg) = e @ [msg]"
    by blast
qed

text \<open>
  A store whose read fails; a store whose only agreement-protocol attribute holds a
  list with an element that is not a map; a store with a well-formed one.
\<close>

theorem GenMicroservicePolicy_errors_witness:
  "GenMicroservicePolicy example_policy_pkg example_msdef ''/etc/policy/''
     (example_db\<lparr>read_error := Some (External ''database not open'')\<rparr>) [] ''IBM''
     = (Return (Some (FailedToGetAttributes ''https://bluehorizon.network/microservices/gps''
                        (External ''database not open''))), [])
   \<and> GenMicroservicePolicy example_policy_pkg example_msdef ''/etc/policy/''
     (example_db\<lparr>service_attributes := [common_protocols, common_region]\<rparr>) [] ''IBM''
     = (Return (Some (ErrorConvertingAgreementProtocolList
                        (External ''could not convert agreement protocol list element to a map''))), [])
   \<and> (\<exists>pol. GenMicroservicePolicy example_policy_pkg example_msdef ''/etc/policy/''
         (example_db\<lparr>service_attributes := [gps_protocols, common_region]\<rparr>) [] ''IBM''
         = (Return None, [PolicyCreatedMessage pol]))"
proof -
  note store_fails = GenMicroservicePolicy_errors
      [of "example_db\<lparr>read_error := Some (External ''database not open'')\<rparr>"
          example_policy_pkg example_msdef "''/etc/policy/''" "[]" "''IBM''"]
  note malformed = GenMicroservicePolicy_errors
      [of "example_db\<lparr>service_attributes := [common_protocols, common_region]\<rparr>"
          example_policy_pkg example_msdef "''/etc/policy/''" "[]" "''IBM''"]
  have a: "GenMicroservicePolicy example_policy_pkg example_msdef ''/etc/policy/''
     (example_db\<lparr>read_error := Some (External ''database not open'')\<rparr>) [] ''IBM''
     = (Return (Some (FailedToGetAttributes ''https://bluehorizon.network/microservices/gps''
                        (External ''database not open''))), [])"
    using store_fails by (simp add: example_db_def example_msdef_def)
  have attrs: "protocols_of (common_attributes
            (example_db\<lparr>service_attributes := [common_protocols, common_region]\<rparr>)
            (SpecRef example_msdef)
          @ specific_attributes
            (example_db\<lparr>service_attributes := [common_protocols, common_region]\<rparr>)
            (SpecRef example_msdef))
        = [ISlice [IString ''Basic'']]"
    by (simp add: common_attributes_def specific_attributes_def example_db_def example_msdef_def
        common_protocols_def common_region_def common_meta_def)
  have conv: "ConvertToAgreementProtocolList example_policy_pkg [IString ''Basic'']
        = Inl (External ''could not convert agreement protocol list element to a map'')"
    by (simp add: example_policy_pkg_def)
  have read: "read_error (example_db\<lparr>service_attributes := [common_protocols, common_region]\<rparr>) = None"
    by (simp add: example_db_def)
  have b: "GenMicroservicePolicy example_policy_pkg example_msdef ''/etc/policy/''
     (example_db\<lparr>service_attributes := [common_protocols, common_region]\<rparr>) [] ''IBM''
     = (Return (Some (ErrorConvertingAgreementProtocolList
                        (External ''could not convert agreement protocol list element to a map''))), [])"
    using malformed attrs conv read by simp
  have c: "\<exists>pol. GenMicroservicePolicy example_policy_pkg example_msdef ''/etc/policy/''
         (example_db\<lparr>service_attributes := [gps_protocols, common_region]\<rparr>) [] ''IBM''
         = (Return None, [PolicyCreatedMessage pol])"
    by (simp add: run_defs)
  from a b c show ?thesis by blast
qed

text \<open>
  An agreement-protocol attribute whose value is a string, not a list: the type
  assertion panics, so the call neither returns an error nor sends a message.
\<close>

lemma GenMicroservicePolicy_panics:
  "GenMicroservicePolicy example_policy_pkg example_msdef ''/etc/policy/''
     (example_db\<lparr>service_attributes :=
        [AgreementProtocolAttributes common_meta (IString ''Basic'')]\<rparr>) [] ''IBM''
   = (Panic, [])"
  by (simp add: run_defs)

end
